theory Spec2Isabelle
  imports Complex_Main
begin

section \<open>Python strings\<close>

text \<open>
  A Python \<open>str\<close> is a sequence of Unicode code points. Five of the characters the
  importer looks for (the euro and rupee signs among them) lie beyond one byte, so a
  string is a list of code points here, and \<open>u\<close> reads an ASCII literal.
\<close>

type_synonym ustring = "nat list"

definition u :: "string \<Rightarrow> ustring" where
  "u s = map of_char s"

text \<open>
  \<open>str.isspace\<close>, which is also what \<open>str.strip()\<close> removes and what \<open>\s\<close> matches
  in a \<open>str\<close> pattern (Unicode 14, the table of CPython 3.11).
\<close>

definition py_isspace :: "nat \<Rightarrow> bool" where
  "py_isspace c \<longleftrightarrow>
     (9 \<le> c \<and> c \<le> 13) \<or> (28 \<le> c \<and> c \<le> 32) \<or> c = 133 \<or> c = 160 \<or> c = 5760
     \<or> (8192 \<le> c \<and> c \<le> 8202) \<or> c = 8232 \<or> c = 8233 \<or> c = 8239 \<or> c = 8287
     \<or> c = 12288"

definition py_strip :: "ustring \<Rightarrow> ustring" where
  "py_strip s = rev (dropWhile py_isspace (rev (dropWhile py_isspace s)))"

text \<open>\<open>s.rstrip("%")\<close>: trailing percent signs go, all of them.\<close>

definition py_rstrip_chr :: "nat \<Rightarrow> ustring \<Rightarrow> ustring" where
  "py_rstrip_chr c s = rev (dropWhile (\<lambda>x. x = c) (rev s))"

text \<open>\<open>s.replace(c, "")\<close> for a one-character \<open>c\<close>.\<close>

definition py_remove_chr :: "nat \<Rightarrow> ustring \<Rightarrow> ustring" where
  "py_remove_chr c s = filter (\<lambda>x. x \<noteq> c) s"

text \<open>
  \<open>str.lower()\<close>. The source only ever compares the result with ASCII words, so the
  function is exact on every code point whose lowercase contains an ASCII character:
  the letters A to Z, the Kelvin sign U+212A (to \<open>k\<close>) and U+0130 (to \<open>i\<close> followed
  by U+0307). Every other code point lowers to non-ASCII text and is left as it is.
\<close>

definition lower_cp :: "nat \<Rightarrow> ustring" where
  "lower_cp c =
     (if 65 \<le> c \<and> c \<le> 90 then [c + 32]
      else if c = 8490 then [107]
      else if c = 304 then [105, 775]
      else [c])"

definition py_lower :: "ustring \<Rightarrow> ustring" where
  "py_lower s = concat (map lower_cp s)"

subsection \<open>Decimal digits\<close>

text \<open>
  The code points of Unicode category Nd come in runs of ten, zero to nine. They are what
  \<open>\d\<close> matches in a \<open>str\<close> pattern and what \<open>int()\<close> and \<open>float()\<close> read as digits.
  The list holds the zero of every run.
\<close>

definition decimal_zeros :: "nat list" where
  "decimal_zeros =
    [48, 1632, 1776, 1984, 2406, 2534, 2662, 2790, 2918, 3046, 3174, 3302, 3430, 3558,
     3664, 3792, 3872, 4160, 4240, 6112, 6160, 6470, 6608, 6784, 6800, 6992, 7088, 7232,
     7248, 42528, 43216, 43264, 43472, 43504, 43600, 44016, 65296, 66720, 68912, 69734,
     69872, 69942, 70096, 70384, 70736, 70864, 71248, 71360, 71472, 71904, 72016, 72784,
     73040, 73120, 92768, 92864, 93008, 120782, 120792, 120802, 120812, 120822, 123200,
     123632, 125264, 130032]"

definition py_decimal :: "nat \<Rightarrow> nat option" where
  "py_decimal c =
     map_option (\<lambda>z. c - z) (find (\<lambda>z. z \<le> c \<and> c < z + 10) decimal_zeros)"

definition py_isdecimal :: "nat \<Rightarrow> bool" where
  "py_isdecimal c \<longleftrightarrow> py_decimal c \<noteq> None"

subsection \<open>Regular expressions\<close>

text \<open>
  The five patterns of the importer use character classes, concatenation, alternation and
  counted repetition only, so a match by Python's backtracking engine is membership in the
  pattern's language, decided here by derivatives.
\<close>

datatype cclass =
    Ch nat            \<comment> \<open>one code point\<close>
  | Rng nat nat       \<comment> \<open>\<open>[a-b]\<close>\<close>
  | Dig               \<comment> \<open>\<open>\d\<close>\<close>
  | Spc               \<comment> \<open>\<open>\s\<close>\<close>

fun in_cclass :: "nat \<Rightarrow> cclass \<Rightarrow> bool" where
  "in_cclass c (Ch a) = (c = a)"
| "in_cclass c (Rng a b) = (a \<le> c \<and> c \<le> b)"
| "in_cclass c Dig = py_isdecimal c"
| "in_cclass c Spc = py_isspace c"

datatype rx =
    Nul                    \<comment> \<open>matches nothing\<close>
  | Eps                    \<comment> \<open>matches the empty string\<close>
  | Cls "cclass list"      \<comment> \<open>\<open>[...]\<close>\<close>
  | NCls "cclass list"     \<comment> \<open>\<open>[^...]\<close>\<close>
  | Seq rx rx
  | Alt rx rx
  | Star rx

fun nullable :: "rx \<Rightarrow> bool" where
  "nullable Nul = False"
| "nullable Eps = True"
| "nullable (Cls cs) = False"
| "nullable (NCls cs) = False"
| "nullable (Seq r s) = (nullable r \<and> nullable s)"
| "nullable (Alt r s) = (nullable r \<or> nullable s)"
| "nullable (Star r) = True"

text \<open>The smart constructors keep the derivative of a long pattern small.\<close>

fun seq :: "rx \<Rightarrow> rx \<Rightarrow> rx" where
  "seq Nul s = Nul"
| "seq Eps s = s"
| "seq r s = Seq r s"

fun alt :: "rx \<Rightarrow> rx \<Rightarrow> rx" where
  "alt Nul s = s"
| "alt r Nul = r"
| "alt r s = Alt r s"

fun deriv :: "nat \<Rightarrow> rx \<Rightarrow> rx" where
  "deriv c Nul = Nul"
| "deriv c Eps = Nul"
| "deriv c (Cls cs) = (if list_ex (in_cclass c) cs then Eps else Nul)"
| "deriv c (NCls cs) = (if list_ex (in_cclass c) cs then Nul else Eps)"
| "deriv c (Seq r s) =
     (if nullable r then alt (seq (deriv c r) s) (deriv c s) else seq (deriv c r) s)"
| "deriv c (Alt r s) = alt (deriv c r) (deriv c s)"
| "deriv c (Star r) = seq (deriv c r) (Star r)"

definition accepts :: "rx \<Rightarrow> ustring \<Rightarrow> bool" where
  "accepts r s = nullable (foldl (\<lambda>q c. deriv c q) r s)"

text \<open>
  \<open>re.compile("^R$").match(s)\<close>: the whole of \<open>s\<close> is in the language of \<open>R\<close>, or
  \<open>s\<close> is such a string followed by one line feed (\<open>$\<close> also matches just before a
  final newline).
\<close>

definition re_match :: "rx \<Rightarrow> ustring \<Rightarrow> bool" where
  "re_match r s \<longleftrightarrow> accepts r s \<or> (s \<noteq> [] \<and> last s = 10 \<and> accepts r (butlast s))"

definition Opt :: "rx \<Rightarrow> rx" where
  "Opt r = Alt r Eps"

definition Plus :: "rx \<Rightarrow> rx" where
  "Plus r = Seq r (Star r)"

text \<open>\<open>r{n}\<close>, \<open>r{n,}\<close> and \<open>r{1,n+1}\<close>.\<close>

fun Times :: "nat \<Rightarrow> rx \<Rightarrow> rx" where
  "Times 0 r = Eps"
| "Times (Suc n) r = Seq r (Times n r)"

definition AtLeast :: "nat \<Rightarrow> rx \<Rightarrow> rx" where
  "AtLeast n r = Seq (Times n r) (Star r)"

fun OneTo :: "nat \<Rightarrow> rx \<Rightarrow> rx" where
  "OneTo 0 r = r"
| "OneTo (Suc n) r = Seq r (Opt (OneTo n r))"

definition Lit :: "nat \<Rightarrow> rx" where
  "Lit c = Cls [Ch c]"

text \<open>The word characters of the source's classes.\<close>

definition alnum :: "cclass list" where
  "alnum = [Rng 97 122, Rng 65 90, Rng 48 57]"

definition currency_symbols :: "nat list" where
  "currency_symbols = [36, 8364, 163, 165, 8377]"

text \<open>\<open>^[a-zA-Z0-9._%+-]+@[a-zA-Z0-9.-]+\.[a-zA-Z]{2,}$\<close>\<close>

definition EMAIL_PATTERN :: rx where
  "EMAIL_PATTERN =
     Seq (Plus (Cls (alnum @ [Ch 46, Ch 95, Ch 37, Ch 43, Ch 45])))
    (Seq (Lit 64)
    (Seq (Plus (Cls (alnum @ [Ch 46, Ch 45])))
    (Seq (Lit 46)
         (AtLeast 2 (Cls [Rng 97 122, Rng 65 90])))))"

text \<open>
  \<open>^https?://[^\s]+$\<close> with \<open>re.IGNORECASE\<close>: each letter also matches its capital, and
  \<open>s\<close> also the long s U+017F, whose case folding is \<open>s\<close>.
\<close>

definition URL_PATTERN :: rx where
  "URL_PATTERN =
     Seq (Cls [Ch 104, Ch 72])
    (Seq (Cls [Ch 116, Ch 84])
    (Seq (Cls [Ch 116, Ch 84])
    (Seq (Cls [Ch 112, Ch 80])
    (Seq (Opt (Cls [Ch 115, Ch 83, Ch 383]))
    (Seq (Lit 58)
    (Seq (Lit 47)
    (Seq (Lit 47)
         (Plus (NCls [Spc])))))))))"

text \<open>\<open>^[\+]?[(]?[0-9]{1,4}[)]?[-\s./0-9]{6,}$\<close>\<close>

definition PHONE_PATTERN :: rx where
  "PHONE_PATTERN =
     Seq (Opt (Lit 43))
    (Seq (Opt (Lit 40))
    (Seq (OneTo 3 (Cls [Rng 48 57]))
    (Seq (Opt (Lit 41))
         (AtLeast 6 (Cls [Ch 45, Spc, Ch 46, Ch 47, Rng 48 57])))))"

text \<open>\<open>^-?\d+\.?\d*\s*%$\<close>\<close>

definition PERCENTAGE_PATTERN :: rx where
  "PERCENTAGE_PATTERN =
     Seq (Opt (Lit 45))
    (Seq (Plus (Cls [Dig]))
    (Seq (Opt (Lit 46))
    (Seq (Star (Cls [Dig]))
    (Seq (Star (Cls [Spc]))
         (Lit 37)))))"

text \<open>
  The signed, comma-grouped number \<open>-?\d[\d,]*\.?\d*\<close> of the currency pattern, and the
  two alternatives \<open>^[$...]\s*N$\<close> and \<open>^N\s*[$...]$\<close>, each anchored on its own.
\<close>

definition currency_number :: rx where
  "currency_number =
     Seq (Opt (Lit 45))
    (Seq (Cls [Dig])
    (Seq (Star (Cls [Dig, Ch 44]))
    (Seq (Opt (Lit 46))
         (Star (Cls [Dig])))))"

definition CURRENCY_PREFIX :: rx where
  "CURRENCY_PREFIX =
     Seq (Cls (map Ch currency_symbols)) (Seq (Star (Cls [Spc])) currency_number)"

definition CURRENCY_SUFFIX :: rx where
  "CURRENCY_SUFFIX =
     Seq currency_number (Seq (Star (Cls [Spc])) (Cls (map Ch currency_symbols)))"

definition currency_match :: "ustring \<Rightarrow> bool" where
  "currency_match s \<longleftrightarrow> re_match CURRENCY_PREFIX s \<or> re_match CURRENCY_SUFFIX s"


section \<open>Numbers\<close>

subsection \<open>Floating-point values\<close>

text \<open>
  A Python \<open>float\<close> is a finite number, an infinity or NaN. Finite values are exact
  reals here: rounding to 53 bits is not modelled. What is modelled is the range: a result
  at or beyond \<open>DBL_OVERFLOW\<close>, where a double rounds to infinity, becomes an infinity in
  the operations that saturate, and an \<open>OverflowError\<close> in those that raise.
\<close>

datatype pyfloat = Fin real | PInf | NInf | NaN

definition DBL_OVERFLOW :: real where
  "DBL_OVERFLOW = 2 ^ 1024 - 2 ^ 970"

definition fround :: "real \<Rightarrow> pyfloat" where
  "fround r = (if DBL_OVERFLOW \<le> r then PInf else if r \<le> - DBL_OVERFLOW then NInf else Fin r)"

subsection \<open>Reading numbers from strings\<close>

text \<open>
  \<open>int(s)\<close> and \<open>float(s)\<close> first turn every non-ASCII space into a blank and every
  decimal digit into its ASCII digit, then skip C whitespace at both ends. The ASCII
  separators U+001C to U+001F, which \<open>strip()\<close> removes, are not skipped.
\<close>

definition num_isspace :: "nat \<Rightarrow> bool" where
  "num_isspace c \<longleftrightarrow> py_isspace c \<and> \<not> (28 \<le> c \<and> c \<le> 31)"

definition num_strip :: "ustring \<Rightarrow> ustring" where
  "num_strip s = rev (dropWhile num_isspace (rev (dropWhile num_isspace s)))"

text \<open>
  The longest prefix of the form digit, then digits each optionally preceded by one
  underscore; returns the digit values and what follows.
\<close>

fun take_digits :: "ustring \<Rightarrow> nat list \<times> ustring" where
  "take_digits [] = ([], [])"
| "take_digits [c] = (case py_decimal c of None \<Rightarrow> ([], [c]) | Some d \<Rightarrow> ([d], []))"
| "take_digits (c # c1 # cs) =
     (case py_decimal c of
        None \<Rightarrow> ([], c # c1 # cs)
      | Some d \<Rightarrow>
          if c1 = 95 then
            (case cs of
               [] \<Rightarrow> ([d], c1 # cs)
             | c2 # rest \<Rightarrow>
                 if py_isdecimal c2
                 then (case take_digits cs of (ds, r) \<Rightarrow> (d # ds, r))
                 else ([d], c1 # cs))
          else (case take_digits (c1 # cs) of (ds, r) \<Rightarrow> (d # ds, r)))"

definition digits_value :: "nat list \<Rightarrow> nat" where
  "digits_value ds = foldl (\<lambda>a d. 10 * a + d) 0 ds"

text \<open>An optional sign: the factor and the rest.\<close>

definition take_sign :: "ustring \<Rightarrow> int \<times> ustring" where
  "take_sign s =
     (case s of
        [] \<Rightarrow> (1, [])
      | c # cs \<Rightarrow> if c = 45 then (- 1, cs) else if c = 43 then (1, cs) else (1, s))"

text \<open>
  \<open>int(s)\<close> in base ten; \<open>None\<close> is the \<open>ValueError\<close>. (The limit of CPython 3.11 on
  the number of digits, 4300 unless configured, is not modelled.)
\<close>

definition py_int :: "ustring \<Rightarrow> int option" where
  "py_int s =
     (case take_sign (num_strip s) of (sg, r) \<Rightarrow>
        (case take_digits r of (ds, rest) \<Rightarrow>
           if ds \<noteq> [] \<and> rest = [] then Some (sg * int (digits_value ds)) else None))"

definition ascii_lower :: "nat \<Rightarrow> nat" where
  "ascii_lower c = (if 65 \<le> c \<and> c \<le> 90 then c + 32 else c)"

text \<open>The exponent part: nothing, or \<open>e\<close>, an optional sign and digits up to the end.\<close>

definition take_exponent :: "ustring \<Rightarrow> int option" where
  "take_exponent s =
     (case s of
        [] \<Rightarrow> Some 0
      | c # cs \<Rightarrow>
          if c = 101 \<or> c = 69 then
            (case take_sign cs of (sg, r) \<Rightarrow>
               (case take_digits r of (ds, rest) \<Rightarrow>
                  if ds \<noteq> [] \<and> rest = [] then Some (sg * int (digits_value ds)) else None))
          else None)"

definition pow10 :: "int \<Rightarrow> real" where
  "pow10 e = (if 0 \<le> e then 10 ^ nat e else 1 / 10 ^ nat (- e))"

text \<open>
  \<open>float(s)\<close>; \<open>None\<close> is the \<open>ValueError\<close>. A decimal literal has digits before or
  after the point, and the words \<open>inf\<close>, \<open>infinity\<close> and \<open>nan\<close> are read in any case.
\<close>

definition py_float :: "ustring \<Rightarrow> pyfloat option" where
  "py_float s =
     (case take_sign (num_strip s) of (sg, r) \<Rightarrow>
        let w = map ascii_lower r in
        if w = u ''inf'' \<or> w = u ''infinity'' then Some (if sg < 0 then NInf else PInf)
        else if w = u ''nan'' then Some NaN
        else
          (case take_digits r of (ip, r1) \<Rightarrow>
             (case (if r1 \<noteq> [] \<and> hd r1 = 46 then take_digits (tl r1) else ([], r1)) of
                (fp, r2) \<Rightarrow>
                  if ip = [] \<and> fp = [] then None
                  else
                    (case take_exponent r2 of
                       None \<Rightarrow> None
                     | Some e \<Rightarrow>
                         Some (fround (real_of_int sg
                           * (real (digits_value ip) + real (digits_value fp) / 10 ^ length fp)
                           * pow10 e))))))"

section \<open>The cell type classifier\<close>

datatype DataType =
    INTEGER | FLOAT | PERCENTAGE | CURRENCY | TEXT | BOOLEAN | DATE | TIME | DATETIME
  | EMAIL | URL | PHONE | EMPTY | MIXED

text \<open>
  Naive \<open>datetime.date\<close>, \<open>datetime.time\<close> and \<open>datetime.datetime\<close> values: year,
  month, day; hour, minute, second, microsecond.
\<close>

datatype pydate = Date nat nat nat
datatype pytime = Time nat nat nat nat
datatype pydatetime = DateTime pydate pytime

text \<open>
  The values a cell can hold: \<open>None\<close>, \<open>bool\<close>, \<open>int\<close>, \<open>float\<close>, the three
  temporal types and \<open>str\<close>. The classifier's last line, for a value of any other type,
  has no input in this type.
\<close>

datatype cell =
    CNone
  | CBool bool
  | CInt int
  | CFloat pyfloat
  | CDateTime pydatetime
  | CDate pydate
  | CTime pytime
  | CStr ustring

definition detect_string :: "ustring \<Rightarrow> DataType" where
  "detect_string v =
     (let stripped = py_strip v in
      if stripped = [] then EMPTY
      else if py_lower stripped \<in> set [u ''true'', u ''false'', u ''yes'', u ''no''] then BOOLEAN
      else if re_match PERCENTAGE_PATTERN stripped then PERCENTAGE
      else if currency_match stripped then CURRENCY
      else if re_match EMAIL_PATTERN stripped then EMAIL
      else if re_match URL_PATTERN stripped then URL
      else if re_match PHONE_PATTERN stripped then PHONE
      else if py_int (py_remove_chr 44 stripped) \<noteq> None then INTEGER
      else if py_float (py_remove_chr 44 stripped) \<noteq> None then FLOAT
      else TEXT)"

fun detect_cell_type :: "cell \<Rightarrow> DataType" where
  "detect_cell_type CNone = EMPTY"
| "detect_cell_type (CBool b) = BOOLEAN"
| "detect_cell_type (CInt n) = INTEGER"
| "detect_cell_type (CFloat x) = FLOAT"
| "detect_cell_type (CDateTime d) = DATETIME"
| "detect_cell_type (CDate d) = DATE"
| "detect_cell_type (CTime t) = TIME"
| "detect_cell_type (CStr v) = detect_string v"


section \<open>Errors\<close>

text \<open>
  The exceptions the modelled code can raise. A function that can raise returns
  \<open>error + 'a\<close>, with \<open>Inl\<close> for the exception.
\<close>

datatype error = IndexError | ValueError | OverflowError | ZeroDivisionError | ImportError

definition bind_err :: "error + 'a \<Rightarrow> ('a \<Rightarrow> error + 'b) \<Rightarrow> error + 'b" where
  "bind_err m f = (case m of Inl e \<Rightarrow> Inl e | Inr x \<Rightarrow> f x)"

text \<open>A loop that builds a list and stops at the first exception.\<close>

fun map_err :: "('a \<Rightarrow> error + 'b) \<Rightarrow> 'a list \<Rightarrow> error + 'b list" where
  "map_err f [] = Inr []"
| "map_err f (x # xs) =
     (case f x of
        Inl e \<Rightarrow> Inl e
      | Inr y \<Rightarrow> (case map_err f xs of Inl e \<Rightarrow> Inl e | Inr ys \<Rightarrow> Inr (y # ys)))"

section \<open>The column type resolver\<close>

text \<open>
  The histogram is a \<open>dict\<close>: an association list in insertion order. Its keys are the
  values of the \<open>DataType\<close> enumeration, so \<open>DataType(key)\<close> is the key itself.
\<close>

type_synonym histogram = "(DataType \<times> int) list"

text \<open>
  The loop over the candidates by descending count. \<open>count / total\<close> is a true division,
  compared exactly here; it raises on a zero total.
\<close>

fun dominant :: "int \<Rightarrow> histogram \<Rightarrow> error + DataType" where
  "dominant tot [] = Inr MIXED"
| "dominant tot ((dtype, cnt) # rest) =
     (if tot = 0 then Inl ZeroDivisionError
      else if 0.8 \<le> real_of_int cnt / real_of_int tot then Inr dtype
      else dominant tot rest)"

definition resolve_column_type :: "histogram \<Rightarrow> error + DataType" where
  "resolve_column_type type_counts =
     (let non_empty = filter (\<lambda>kv. fst kv \<noteq> EMPTY) type_counts in
      if non_empty = [] then Inr EMPTY
      else if length non_empty = 1 then Inr (fst (hd non_empty))
      else
        let types_present = set (map fst non_empty) in
        if types_present = {INTEGER, FLOAT} then Inr FLOAT
        else if types_present = {DATE, DATETIME} then Inr DATETIME
        else
          let tot = sum_list (map snd non_empty) in
          dominant tot (sort_key (\<lambda>x. - snd x) non_empty))"

section \<open>The importer\<close>

subsection \<open>Text of a value\<close>

function dec_nat :: "nat \<Rightarrow> ustring" where
  "dec_nat n = (if n < 10 then [48 + n] else dec_nat (n div 10) @ [48 + n mod 10])"
  by pat_completeness auto
termination
  by (relation "measure id") auto

definition dec_int :: "int \<Rightarrow> ustring" where
  "dec_int i = (if i < 0 then 45 # dec_nat (nat (- i)) else dec_nat (nat i))"

text \<open>A number in at least \<open>k\<close> digits, zero-filled (\<open>%02d\<close>, \<open>%04d\<close>, \<open>%06d\<close>).\<close>

definition zfill :: "nat \<Rightarrow> nat \<Rightarrow> ustring" where
  "zfill k n = replicate (k - length (dec_nat n)) 48 @ dec_nat n"

fun date_iso :: "pydate \<Rightarrow> ustring" where
  "date_iso (Date y m d) = zfill 4 y @ [45] @ zfill 2 m @ [45] @ zfill 2 d"

fun time_iso :: "pytime \<Rightarrow> ustring" where
  "time_iso (Time h m s us) =
     zfill 2 h @ [58] @ zfill 2 m @ [58] @ zfill 2 s
     @ (if us = 0 then [] else [46] @ zfill 6 us)"

text \<open>\<open>datetime.isoformat(sep)\<close>; \<open>str()\<close> uses a blank, \<open>isoformat()\<close> the letter T.\<close>

fun datetime_iso :: "nat \<Rightarrow> pydatetime \<Rightarrow> ustring" where
  "datetime_iso sep (DateTime d t) = date_iso d @ [sep] @ time_iso t"

text \<open>
  \<open>str(v)\<close>. The shortest-round-trip text of a float is the interpreter's; it is the
  parameter \<open>R\<close> of every function that prints a value.
\<close>

fun py_str :: "(pyfloat \<Rightarrow> ustring) \<Rightarrow> cell \<Rightarrow> ustring" where
  "py_str R CNone = u ''None''"
| "py_str R (CBool b) = (if b then u ''True'' else u ''False'')"
| "py_str R (CInt n) = dec_int n"
| "py_str R (CFloat x) = R x"
| "py_str R (CDateTime d) = datetime_iso 32 d"
| "py_str R (CDate d) = date_iso d"
| "py_str R (CTime t) = time_iso t"
| "py_str R (CStr s) = s"

subsection \<open>Column letters\<close>

text \<open>
  \<open>openpyxl.utils.get_column_letter\<close>: the spreadsheet name of a 1-based column, A to
  Z, then AA and so on up to ZZZ; any other index is a \<open>ValueError\<close>.
\<close>

function col_letters :: "nat \<Rightarrow> ustring" where
  "col_letters n =
     (if n \<le> 26 then [64 + n] else col_letters ((n - 1) div 26) @ [65 + (n - 1) mod 26])"
  by pat_completeness auto
termination
  by (relation "measure id") auto

definition get_column_letter :: "nat \<Rightarrow> error + ustring" where
  "get_column_letter idx =
     (if 1 \<le> idx \<and> idx \<le> 18278 then Inr (col_letters idx) else Inl ValueError)"

subsection \<open>Data model\<close>

record ColumnInfo =
  index :: nat
  letter :: ustring
  header :: ustring
  detected_type :: DataType
  non_empty_count :: int
  empty_count :: int
  total_count :: int
  sample_values :: "cell list"
  unique_count :: int
  type_counts :: histogram

record SheetData =
  name :: ustring
  columns :: "ColumnInfo list"
  rows :: "cell list list"
  headers :: "ustring list"
  row_count :: int
  col_count :: int

record ImportResult =
  file_path :: ustring
  file_name :: ustring
  sheets :: "SheetData list"
  import_time :: ustring
  total_rows :: int
  total_columns :: int

text \<open>The constructors, with the defaults of the three \<open>__init__\<close> methods.\<close>

definition new_ColumnInfo :: "nat \<Rightarrow> ustring \<Rightarrow> ustring \<Rightarrow> ColumnInfo" where
  "new_ColumnInfo i l h =
     \<lparr>index = i, letter = l, header = h, detected_type = EMPTY, non_empty_count = 0,
      empty_count = 0, total_count = 0, sample_values = [], unique_count = 0,
      type_counts = []\<rparr>"

definition new_SheetData :: "ustring \<Rightarrow> SheetData" where
  "new_SheetData n =
     \<lparr>name = n, columns = [], rows = [], headers = [], row_count = 0, col_count = 0\<rparr>"

text \<open>\<open>s.rsplit(c, 1)[-1]\<close>: what follows the last \<open>c\<close>, or all of \<open>s\<close>.\<close>

definition after_last :: "nat \<Rightarrow> ustring \<Rightarrow> ustring" where
  "after_last c s = rev (takeWhile (\<lambda>x. x \<noteq> c) (rev s))"

text \<open>The clock is read at construction: \<open>now\<close> is \<open>datetime.now().isoformat()\<close>.\<close>

definition new_ImportResult :: "ustring \<Rightarrow> ustring \<Rightarrow> ImportResult" where
  "new_ImportResult now path =
     \<lparr>file_path = path, file_name = after_last 92 (after_last 47 path), sheets = [],
      import_time = now, total_rows = 0, total_columns = 0\<rparr>"


subsection \<open>Processing one worksheet\<close>

text \<open>\<open>xs[i]\<close> for an index that is not negative.\<close>

definition py_index :: "'a list \<Rightarrow> nat \<Rightarrow> error + 'a" where
  "py_index xs i = (if i < length xs then Inr (xs ! i) else Inl IndexError)"

text \<open>\<open>xs[:m]\<close>: a negative bound counts from the end.\<close>

definition py_slice_to :: "'a list \<Rightarrow> int \<Rightarrow> 'a list" where
  "py_slice_to xs m = (if 0 \<le> m then take (nat m) xs else take (length xs - nat (- m)) xs)"

text \<open>\<open>d[k] = d.get(k, 0) + 1\<close>: a known key keeps its place, a new one goes last.\<close>

definition dict_incr :: "DataType \<Rightarrow> histogram \<Rightarrow> histogram" where
  "dict_incr k d =
     (if k \<in> set (map fst d) then map (\<lambda>kv. if fst kv = k then (fst kv, snd kv + 1) else kv) d
      else d @ [(k, 1)])"

text \<open>
  Membership in the \<open>set\<close> of values seen follows Python's equality: \<open>True\<close>, \<open>1\<close> and
  \<open>1.0\<close> are one element, so booleans and integers are kept as the float they equal.
  A NaN equals nothing, itself included, and every cell is an object of its own: each
  NaN is a new element.
\<close>

fun set_key :: "cell \<Rightarrow> cell" where
  "set_key (CBool b) = CFloat (Fin (if b then 1 else 0))"
| "set_key (CInt n) = CFloat (Fin (real_of_int n))"
| "set_key v = v"

definition set_add :: "cell \<Rightarrow> cell list \<Rightarrow> cell list" where
  "set_add v seen =
     (if v = CFloat NaN then seen @ [v]
      else if set_key v \<in> set seen then seen
      else seen @ [set_key v])"

record col_scan =
  sc_type_counts :: histogram
  sc_empty :: int
  sc_non_empty :: int
  sc_samples :: "cell list"
  sc_unique :: "cell list"

definition scan_cell :: "col_scan \<Rightarrow> cell \<Rightarrow> col_scan" where
  "scan_cell sc val =
     (let cell_type = detect_cell_type val;
          sc1 = sc\<lparr>sc_type_counts := dict_incr cell_type (sc_type_counts sc)\<rparr>
      in if cell_type = EMPTY then sc1\<lparr>sc_empty := sc_empty sc1 + 1\<rparr>
         else sc1\<lparr>sc_non_empty := sc_non_empty sc1 + 1,
                  sc_samples := (if length (sc_samples sc1) < 5 then sc_samples sc1 @ [val]
                                 else sc_samples sc1),
                  sc_unique := set_add val (sc_unique sc1)\<rparr>)"

definition build_header ::
  "(pyfloat \<Rightarrow> ustring) \<Rightarrow> cell list option \<Rightarrow> nat \<Rightarrow> error + ustring" where
  "build_header R raw_headers i =
     (if (case raw_headers of
            None \<Rightarrow> False
          | Some hs \<Rightarrow> hs \<noteq> [] \<and> i < length hs \<and> hs ! i \<noteq> CNone)
      then Inr (py_str R (the raw_headers ! i))
      else bind_err (get_column_letter (i + 1)) (\<lambda>l. Inr (u ''Column_'' @ l)))"

definition build_column ::
  "ustring list \<Rightarrow> cell list list \<Rightarrow> nat \<Rightarrow> error + ColumnInfo" where
  "build_column hdrs normalized_rows col_idx =
     bind_err (get_column_letter (col_idx + 1)) (\<lambda>l.
     bind_err (py_index hdrs col_idx) (\<lambda>h.
     bind_err (map_err (\<lambda>row. py_index row col_idx) normalized_rows) (\<lambda>col_values.
       let sc = foldl scan_cell
                  \<lparr>sc_type_counts = [], sc_empty = 0, sc_non_empty = 0, sc_samples = [],
                   sc_unique = []\<rparr> col_values
       in bind_err (resolve_column_type (sc_type_counts sc)) (\<lambda>t.
            Inr ((new_ColumnInfo col_idx l h)
                   \<lparr>total_count := int (length normalized_rows),
                    empty_count := sc_empty sc,
                    non_empty_count := sc_non_empty sc,
                    unique_count := int (length (sc_unique sc)),
                    sample_values := sc_samples sc,
                    type_counts := sc_type_counts sc,
                    detected_type := t\<rparr>)))))"

text \<open>
  \<open>ws\<close> is \<open>list(ws.iter_rows(values_only=True))\<close>, the rows of the worksheet as they
  are read, of whatever lengths.
\<close>

definition process_sheet ::
  "(pyfloat \<Rightarrow> ustring) \<Rightarrow> cell list list \<Rightarrow> ustring \<Rightarrow> bool \<Rightarrow> int option
     \<Rightarrow> error + SheetData" where
  "process_sheet R ws sheet_name has_header max_rows =
     (let sheet = new_SheetData sheet_name; all_rows = ws in
      if all_rows = [] then Inr sheet
      else
        let raw_headers = (if has_header then Some (hd all_rows) else None);
            data_rows0 = (if has_header then tl all_rows else all_rows);
            data_rows = (case max_rows of None \<Rightarrow> data_rows0
                         | Some m \<Rightarrow> py_slice_to data_rows0 m);
            num_cols = foldl max 0 (map length all_rows)
        in
        bind_err (map_err (build_header R raw_headers) [0..<num_cols]) (\<lambda>hdrs.
          let normalized_rows =
                map (\<lambda>row. take num_cols (row @ replicate (num_cols - length row) CNone))
                  data_rows
          in
          bind_err (map_err (build_column hdrs normalized_rows) [0..<num_cols]) (\<lambda>cols.
            Inr (sheet\<lparr>col_count := int num_cols, row_count := int (length data_rows),
                       headers := hdrs, rows := normalized_rows, columns := cols\<rparr>))))"

subsection \<open>Importing a workbook\<close>

text \<open>
  A loaded workbook: its sheets in order, each with its name. \<open>loaded\<close> is what
  \<open>load_workbook(file_path)\<close> gives, the workbook or its exception.
\<close>

type_synonym workbook = "(ustring \<times> cell list list) list"

fun import_sheets ::
  "(pyfloat \<Rightarrow> ustring) \<Rightarrow> workbook \<Rightarrow> bool \<Rightarrow> int option \<Rightarrow> ustring list
     \<Rightarrow> ImportResult \<Rightarrow> error + ImportResult" where
  "import_sheets R wb has_header max_rows [] result = Inr result"
| "import_sheets R wb has_header max_rows (sheet_name # rest) result =
     (case map_of wb sheet_name of
        None \<Rightarrow> import_sheets R wb has_header max_rows rest result
      | Some ws \<Rightarrow>
          bind_err (process_sheet R ws sheet_name has_header max_rows) (\<lambda>sheet_data.
            import_sheets R wb has_header max_rows rest
              (result\<lparr>sheets := sheets result @ [sheet_data],
                      total_rows := total_rows result + row_count sheet_data,
                      total_columns := total_columns result + col_count sheet_data\<rparr>)))"

definition import_file ::
  "(pyfloat \<Rightarrow> ustring) \<Rightarrow> ustring \<Rightarrow> ustring \<Rightarrow> error + workbook \<Rightarrow> ustring list option
     \<Rightarrow> bool \<Rightarrow> int option \<Rightarrow> error + ImportResult" where
  "import_file R now path loaded sheet_names has_header max_rows =
     bind_err loaded (\<lambda>wb.
       let result = new_ImportResult now path;
           sheets_to_process =
             (case sheet_names of
                None \<Rightarrow> map fst wb
              | Some ns \<Rightarrow> if ns \<noteq> [] then ns else map fst wb)
       in import_sheets R wb has_header max_rows sheets_to_process result)"


section \<open>The analyzer\<close>

subsection \<open>Float arithmetic\<close>

text \<open>
  The operations of \<open>_compute_numeric_stats\<close> on floats. Sum, difference, product and
  quotient saturate to an infinity; \<open>x ** 2\<close> raises \<open>OverflowError\<close> where the square
  leaves the range, and so does \<open>float(n)\<close> for an integer beyond it.
\<close>

fun fneg :: "pyfloat \<Rightarrow> pyfloat" where
  "fneg (Fin a) = Fin (- a)"
| "fneg PInf = NInf"
| "fneg NInf = PInf"
| "fneg NaN = NaN"

fun fadd :: "pyfloat \<Rightarrow> pyfloat \<Rightarrow> pyfloat" where
  "fadd (Fin a) (Fin b) = fround (a + b)"
| "fadd NaN y = NaN"
| "fadd x NaN = NaN"
| "fadd PInf NInf = NaN"
| "fadd NInf PInf = NaN"
| "fadd PInf y = PInf"
| "fadd NInf y = NInf"
| "fadd x PInf = PInf"
| "fadd x NInf = NInf"

definition fsub :: "pyfloat \<Rightarrow> pyfloat \<Rightarrow> pyfloat" where
  "fsub x y = fadd x (fneg y)"

text \<open>The sign of a float that is not NaN: \<open>-1\<close>, \<open>0\<close> or \<open>1\<close>.\<close>

fun fsgn :: "pyfloat \<Rightarrow> int" where
  "fsgn (Fin a) = (if a < 0 then - 1 else if a = 0 then 0 else 1)"
| "fsgn PInf = 1"
| "fsgn NInf = - 1"
| "fsgn NaN = 0"

definition finf :: "int \<Rightarrow> pyfloat" where
  "finf sg = (if sg < 0 then NInf else if sg = 0 then NaN else PInf)"

fun fmul :: "pyfloat \<Rightarrow> pyfloat \<Rightarrow> pyfloat" where
  "fmul (Fin a) (Fin b) = fround (a * b)"
| "fmul NaN y = NaN"
| "fmul x NaN = NaN"
| "fmul x y = finf (fsgn x * fsgn y)"

fun fdiv :: "pyfloat \<Rightarrow> pyfloat \<Rightarrow> error + pyfloat" where
  "fdiv x (Fin b) =
     (if b = 0 then Inl ZeroDivisionError
      else case x of
             Fin a \<Rightarrow> Inr (fround (a / b))
           | NaN \<Rightarrow> Inr NaN
           | _ \<Rightarrow> Inr (finf (fsgn x * fsgn (Fin b))))"
| "fdiv x NaN = Inr NaN"
| "fdiv (Fin a) y = Inr (Fin 0)"
| "fdiv x y = Inr NaN"

fun fpow2 :: "pyfloat \<Rightarrow> error + pyfloat" where
  "fpow2 (Fin a) = (if DBL_OVERFLOW \<le> a * a then Inl OverflowError else Inr (Fin (a * a)))"
| "fpow2 NaN = Inr NaN"
| "fpow2 x = Inr PInf"

text \<open>\<open>math.sqrt\<close>, a \<open>ValueError\<close> below zero.\<close>

fun fsqrt :: "pyfloat \<Rightarrow> error + pyfloat" where
  "fsqrt (Fin a) = (if a < 0 then Inl ValueError else Inr (Fin (sqrt a)))"
| "fsqrt PInf = Inr PInf"
| "fsqrt NInf = Inl ValueError"
| "fsqrt NaN = Inr NaN"

fun flt :: "pyfloat \<Rightarrow> pyfloat \<Rightarrow> bool" where
  "flt (Fin a) (Fin b) = (a < b)"
| "flt NaN y = False"
| "flt x NaN = False"
| "flt x NInf = False"
| "flt PInf y = False"
| "flt x y = True"

definition float_of_int :: "int \<Rightarrow> error + pyfloat" where
  "float_of_int n =
     (if DBL_OVERFLOW \<le> \<bar>real_of_int n\<bar> then Inl OverflowError else Inr (Fin (real_of_int n)))"

text \<open>\<open>sum(xs)\<close> of floats, from the integer zero.\<close>

definition fsum :: "pyfloat list \<Rightarrow> pyfloat" where
  "fsum xs = foldl fadd (Fin 0) xs"

text \<open>
  \<open>sorted(xs)\<close> of floats, a stable insertion by \<open>\<open><\<close>\<close>. On a list without NaN the
  comparison is a total order and the result is the sorted list, whatever the algorithm;
  on a list with NaN the result of CPython depends on its merge strategy and is not
  claimed to be this one.
\<close>

fun finsort :: "pyfloat \<Rightarrow> pyfloat list \<Rightarrow> pyfloat list" where
  "finsort x [] = [x]"
| "finsort x (y # ys) = (if flt y x then y # finsort x ys else x # y # ys)"

definition py_sorted :: "pyfloat list \<Rightarrow> pyfloat list" where
  "py_sorted xs = foldr finsort xs []"

subsection \<open>Results\<close>

text \<open>
  Fields that three pairs of classes share by name carry the initials of the analysis
  class here (\<open>cs_\<close>, \<open>sa_\<close>, \<open>ar_\<close>). Completeness, quality scores and average lengths are
  quotients of counts, far inside the float range, and are exact reals.
\<close>

record ColumnStats =
  cs_header :: ustring
  data_type :: DataType
  cs_total_count :: int
  cs_non_empty_count :: int
  cs_empty_count :: int
  cs_unique_count :: int
  completeness :: real
  min_val :: "pyfloat option"
  max_val :: "pyfloat option"
  sum_val :: "pyfloat option"
  mean_val :: "pyfloat option"
  median_val :: "pyfloat option"
  std_dev :: "pyfloat option"
  min_length :: "nat option"
  max_length :: "nat option"
  avg_length :: "real option"
  top_values :: "(ustring \<times> int) list"
  earliest :: "ustring option"
  latest :: "ustring option"
  true_count :: int
  false_count :: int
  duplicate_count :: int
  has_outliers :: bool
  outlier_count :: int

record SheetAnalysis =
  sheet_name :: ustring
  sa_row_count :: int
  sa_col_count :: int
  column_stats :: "ColumnStats list"
  data_quality_score :: real
  type_summary :: histogram
  duplicate_rows :: int
  completely_empty_rows :: int

record AnalysisResult =
  ar_file_name :: ustring
  analysis_time :: ustring
  ar_sheets :: "SheetAnalysis list"
  overall_quality_score :: real
  ar_total_rows :: int
  ar_total_columns :: int

definition new_ColumnStats :: "ustring \<Rightarrow> DataType \<Rightarrow> ColumnStats" where
  "new_ColumnStats h t =
     \<lparr>cs_header = h, data_type = t, cs_total_count = 0, cs_non_empty_count = 0,
      cs_empty_count = 0, cs_unique_count = 0, completeness = 0,
      min_val = None, max_val = None, sum_val = None, mean_val = None, median_val = None,
      std_dev = None, min_length = None, max_length = None, avg_length = None,
      top_values = [], earliest = None, latest = None, true_count = 0, false_count = 0,
      duplicate_count = 0, has_outliers = False, outlier_count = 0\<rparr>"

definition new_SheetAnalysis :: "ustring \<Rightarrow> SheetAnalysis" where
  "new_SheetAnalysis n =
     \<lparr>sheet_name = n, sa_row_count = 0, sa_col_count = 0, column_stats = [],
      data_quality_score = 0, type_summary = [], duplicate_rows = 0,
      completely_empty_rows = 0\<rparr>"

text \<open>\<open>AnalysisResult.__init__\<close> reads the clock: \<open>now\<close> is \<open>datetime.now().isoformat()\<close>.\<close>

definition new_AnalysisResult :: "ustring \<Rightarrow> ustring \<Rightarrow> AnalysisResult" where
  "new_AnalysisResult now fname =
     \<lparr>ar_file_name = fname, analysis_time = now, ar_sheets = [], overall_quality_score = 0,
      ar_total_rows = 0, ar_total_columns = 0\<rparr>"


subsection \<open>Coercions\<close>

definition to_numeric :: "cell \<Rightarrow> error + pyfloat option" where
  "to_numeric v =
     (case v of
        CNone \<Rightarrow> Inr None
      | CBool b \<Rightarrow> Inr None
      | CInt n \<Rightarrow> bind_err (float_of_int n) (\<lambda>x. Inr (Some x))
      | CFloat x \<Rightarrow> Inr (Some x)
      | CStr s \<Rightarrow>
          (let cleaned = py_remove_chr 44 (py_strip s);
               cleaned = foldl (\<lambda>c sym. py_remove_chr sym c) cleaned currency_symbols;
               cleaned = py_strip (py_rstrip_chr 37 cleaned)
           in Inr (py_float cleaned))
      | _ \<Rightarrow> Inr None)"

definition to_date_sortable :: "cell \<Rightarrow> pydatetime option" where
  "to_date_sortable v =
     (case v of
        CDateTime d \<Rightarrow> Some d
      | CDate d \<Rightarrow> Some (DateTime d (Time 0 0 0 0))
      | _ \<Rightarrow> None)"

definition is_truthy :: "cell \<Rightarrow> bool" where
  "is_truthy v =
     (case v of
        CBool b \<Rightarrow> b
      | CStr s \<Rightarrow> py_lower (py_strip s) \<in> set [u ''true'', u ''yes'']
      | _ \<Rightarrow> False)"

subsection \<open>Statistics of one column\<close>

definition somes :: "'a option list \<Rightarrow> 'a list" where
  "somes xs = map the (filter (\<lambda>x. x \<noteq> None) xs)"

text \<open>The outlier test of one value against the two bounds.\<close>

definition is_outlier :: "pyfloat \<Rightarrow> pyfloat \<Rightarrow> pyfloat \<Rightarrow> bool" where
  "is_outlier lower_bound upper_bound x \<longleftrightarrow> flt x lower_bound \<or> flt upper_bound x"

definition outlier_stats :: "pyfloat list \<Rightarrow> ColumnStats \<Rightarrow> ColumnStats" where
  "outlier_stats nums stats =
     (if 4 \<le> length nums then
        let nums_sorted = py_sorted nums;
            q1 = nums_sorted ! (length nums_sorted div 4);
            q3 = nums_sorted ! (3 * length nums_sorted div 4);
            iqr = fsub q3 q1;
            lower_bound = fsub q1 (fmul (Fin 1.5) iqr);
            upper_bound = fadd q3 (fmul (Fin 1.5) iqr);
            outliers = filter (is_outlier lower_bound upper_bound) nums
        in stats\<lparr>outlier_count := int (length outliers), has_outliers := 0 < length outliers\<rparr>
      else stats)"

definition median_of :: "pyfloat list \<Rightarrow> error + pyfloat" where
  "median_of nums_sorted =
     (let n = length nums_sorted in
      if n mod 2 = 1 then Inr (nums_sorted ! (n div 2))
      else fdiv (fadd (nums_sorted ! (n div 2 - 1)) (nums_sorted ! (n div 2))) (Fin 2))"

definition std_dev_of :: "pyfloat list \<Rightarrow> pyfloat \<Rightarrow> error + pyfloat" where
  "std_dev_of nums mean =
     (if 1 < length nums then
        bind_err (map_err (\<lambda>x. fpow2 (fsub x mean)) nums) (\<lambda>sq.
        bind_err (fdiv (fsum sq) (Fin (real (length nums - 1)))) (\<lambda>variance.
          fsqrt variance))
      else Inr (Fin 0))"

definition compute_numeric_stats :: "ColumnStats \<Rightarrow> cell list \<Rightarrow> error + ColumnStats" where
  "compute_numeric_stats stats vals =
     bind_err (map_err to_numeric vals) (\<lambda>coerced.
       let nums = somes coerced in
       if nums = [] then Inr stats
       else
         let nums_sorted = py_sorted nums;
             total = fsum nums
         in
         bind_err (fdiv total (Fin (real (length nums)))) (\<lambda>mean.
         bind_err (median_of nums_sorted) (\<lambda>med.
         bind_err (std_dev_of nums mean) (\<lambda>sd.
           Inr (outlier_stats nums
                  (stats\<lparr>min_val := Some (hd nums_sorted), max_val := Some (last nums_sorted),
                         sum_val := Some total, mean_val := Some mean,
                         median_val := Some med, std_dev := Some sd\<rparr>))))))"

text \<open>The lengths that \<open>_compute_text_stats\<close> collects.\<close>

definition text_lengths :: "(pyfloat \<Rightarrow> ustring) \<Rightarrow> cell list \<Rightarrow> nat list" where
  "text_lengths R vals =
     map length (filter (\<lambda>s. s \<noteq> [])
       (map (\<lambda>v. py_strip (py_str R v)) (filter (\<lambda>v. v \<noteq> CNone) vals)))"

definition compute_text_stats ::
  "(pyfloat \<Rightarrow> ustring) \<Rightarrow> ColumnStats \<Rightarrow> cell list \<Rightarrow> ColumnStats" where
  "compute_text_stats R stats vals =
     (let lengths = text_lengths R vals in
      if lengths \<noteq> [] then
        stats\<lparr>min_length := Some (foldl min (hd lengths) (tl lengths)),
              max_length := Some (foldl max (hd lengths) (tl lengths)),
              avg_length := Some (real (sum_list lengths) / real (length lengths))\<rparr>
      else stats)"

definition compute_boolean_stats :: "ColumnStats \<Rightarrow> cell list \<Rightarrow> ColumnStats" where
  "compute_boolean_stats stats vals =
     foldl (\<lambda>st v.
        if v = CNone then st
        else if (case v of CStr s \<Rightarrow> py_strip s = [] | _ \<Rightarrow> False) then st
        else if is_truthy v then st\<lparr>true_count := true_count st + 1\<rparr>
        else st\<lparr>false_count := false_count st + 1\<rparr>) stats vals"

text \<open>
  The order of naive datetimes, as a number: for fields within the calendar's ranges it
  grows exactly as the datetime does.
\<close>

fun dt_key :: "pydatetime \<Rightarrow> nat" where
  "dt_key (DateTime (Date y m d) (Time h mi s us)) =
     (((((y * 13 + m) * 32 + d) * 24 + h) * 60 + mi) * 60 + s) * 1000000 + us"

definition compute_date_stats :: "ColumnStats \<Rightarrow> cell list \<Rightarrow> ColumnStats" where
  "compute_date_stats stats vals =
     (let dates = somes (map to_date_sortable vals) in
      if dates \<noteq> [] then
        let dates_sorted = sort_key dt_key dates in
        stats\<lparr>earliest := Some (datetime_iso 84 (hd dates_sorted)),
              latest := Some (datetime_iso 84 (last dates_sorted))\<rparr>
      else stats)"

text \<open>
  \<open>Counter(xs)\<close>, in first-seen order, and \<open>most_common(n)\<close>: by descending count, equal
  counts in first-seen order.
\<close>

definition counter_add :: "ustring \<Rightarrow> (ustring \<times> int) list \<Rightarrow> (ustring \<times> int) list" where
  "counter_add k d =
     (if k \<in> set (map fst d) then map (\<lambda>kv. if fst kv = k then (fst kv, snd kv + 1) else kv) d
      else d @ [(k, 1)])"

definition Counter :: "ustring list \<Rightarrow> (ustring \<times> int) list" where
  "Counter xs = foldl (\<lambda>d k. counter_add k d) [] xs"

definition most_common :: "nat \<Rightarrow> (ustring \<times> int) list \<Rightarrow> (ustring \<times> int) list" where
  "most_common n d = take n (sort_key (\<lambda>kv. - snd kv) d)"

definition analyze_column ::
  "(pyfloat \<Rightarrow> ustring) \<Rightarrow> ColumnInfo \<Rightarrow> cell list \<Rightarrow> error + ColumnStats" where
  "analyze_column R col_info vals =
     (let stats0 = (new_ColumnStats (header col_info) (detected_type col_info))
                     \<lparr>cs_total_count := total_count col_info,
                      cs_non_empty_count := non_empty_count col_info,
                      cs_empty_count := empty_count col_info,
                      cs_unique_count := unique_count col_info\<rparr>;
          stats1 = stats0\<lparr>completeness :=
                     (if 0 < cs_total_count stats0
                      then real_of_int (cs_non_empty_count stats0)
                             / real_of_int (cs_total_count stats0) * 100
                      else 0)\<rparr>;
          non_empty_vals =
            filter (\<lambda>v. v \<noteq> CNone \<and> py_strip (py_str R v) \<noteq> []) vals;
          val_counts = Counter (map (py_str R) non_empty_vals);
          stats2 = stats1\<lparr>duplicate_count :=
                     sum_list (map (\<lambda>c. c - 1) (filter (\<lambda>c. 1 < c) (map snd val_counts)))\<rparr>;
          stats = (if val_counts \<noteq> [] then stats2\<lparr>top_values := most_common 10 val_counts\<rparr>
                   else stats2);
          dtype = detected_type col_info
      in
      if dtype \<in> {INTEGER, FLOAT, CURRENCY, PERCENTAGE} then compute_numeric_stats stats vals
      else if dtype \<in> {TEXT, EMAIL, URL, PHONE} then Inr (compute_text_stats R stats vals)
      else if dtype = BOOLEAN then Inr (compute_boolean_stats stats vals)
      else if dtype \<in> {DATE, DATETIME} then Inr (compute_date_stats stats vals)
      else Inr stats)"

subsection \<open>Sheets and workbooks\<close>

text \<open>The loop over the rows: the fingerprints seen, the empty rows, the repeats.\<close>

definition row_tuple :: "(pyfloat \<Rightarrow> ustring) \<Rightarrow> cell list \<Rightarrow> ustring list" where
  "row_tuple R row = map (\<lambda>v. if v \<noteq> CNone then py_str R v else []) row"

definition count_row ::
  "(pyfloat \<Rightarrow> ustring) \<Rightarrow> ustring list set \<times> int \<times> int \<Rightarrow> cell list
     \<Rightarrow> ustring list set \<times> int \<times> int" where
  "count_row R st row =
     (case st of (seen_rows, empties, dups) \<Rightarrow>
        let t = row_tuple R row in
        if list_all (\<lambda>v. v = []) t then (insert t seen_rows, empties + 1, dups)
        else if t \<in> seen_rows then (insert t seen_rows, empties, dups + 1)
        else (insert t seen_rows, empties, dups))"

definition analyze_sheet :: "(pyfloat \<Rightarrow> ustring) \<Rightarrow> SheetData \<Rightarrow> error + SheetAnalysis" where
  "analyze_sheet R sheet =
     (let analysis0 = (new_SheetAnalysis (name sheet))
                        \<lparr>sa_row_count := row_count sheet, sa_col_count := col_count sheet\<rparr>;
          counted = foldl (count_row R) ({}, 0, 0) (rows sheet);
          analysis1 = analysis0\<lparr>completely_empty_rows := fst (snd counted),
                                duplicate_rows := snd (snd counted)\<rparr>
      in
      bind_err
        (map_err (\<lambda>col_info.
            bind_err (map_err (\<lambda>row. py_index row (index col_info)) (rows sheet))
              (analyze_column R col_info))
          (columns sheet))
        (\<lambda>stats_list.
          let completeness_scores = map completeness stats_list;
              analysis2 = analysis1
                \<lparr>column_stats := stats_list,
                 type_summary :=
                   foldl (\<lambda>d col_info. dict_incr (detected_type col_info) d) []
                     (columns sheet)\<rparr>
          in
          if completeness_scores \<noteq> [] then
            let avg_completeness =
                  sum_list completeness_scores / real (length completeness_scores);
                dup_penalty =
                  min (real_of_int (duplicate_rows analysis2)
                         / real_of_int (max (sa_row_count analysis2) 1) * 100) 30
            in Inr (analysis2\<lparr>data_quality_score := max (avg_completeness - dup_penalty) 0\<rparr>)
          else Inr (analysis2\<lparr>data_quality_score := 0\<rparr>)))"

definition analyze ::
  "(pyfloat \<Rightarrow> ustring) \<Rightarrow> ustring \<Rightarrow> ImportResult \<Rightarrow> error + AnalysisResult" where
  "analyze R now import_result =
     (let result = (new_AnalysisResult now (file_name import_result))
                     \<lparr>ar_total_rows := total_rows import_result,
                      ar_total_columns := total_columns import_result\<rparr>
      in
      bind_err (map_err (analyze_sheet R) (sheets import_result)) (\<lambda>analyses.
        let quality_scores = map data_quality_score analyses;
            result1 = result\<lparr>ar_sheets := analyses\<rparr>
        in
        if quality_scores \<noteq> [] then
          Inr (result1\<lparr>overall_quality_score :=
                 sum_list quality_scores / real (length quality_scores)\<rparr>)
        else Inr result1))"


subsection \<open>Serialization of column statistics\<close>

text \<open>The values of a \<open>dict\<close> made for output; the \<open>dict\<close> itself keeps insertion order.\<close>

datatype json =
    JNone
  | JBool bool
  | JInt int
  | JReal real
  | JFloat pyfloat
  | JStr ustring
  | JList "json list"
  | JDict "(ustring \<times> json) list"

text \<open>\<open>DataType.value\<close>, the text of each member of the enumeration.\<close>

fun type_value :: "DataType \<Rightarrow> ustring" where
  "type_value INTEGER = u ''Integer''"
| "type_value FLOAT = u ''Float''"
| "type_value PERCENTAGE = u ''Percentage''"
| "type_value CURRENCY = u ''Currency''"
| "type_value TEXT = u ''Text''"
| "type_value BOOLEAN = u ''Boolean''"
| "type_value DATE = u ''Date''"
| "type_value TIME = u ''Time''"
| "type_value DATETIME = u ''DateTime''"
| "type_value EMAIL = u ''Email''"
| "type_value URL = u ''URL''"
| "type_value PHONE = u ''Phone''"
| "type_value EMPTY = u ''Empty''"
| "type_value MIXED = u ''Mixed''"

text \<open>\<open>round(x, nd)\<close>: to \<open>nd\<close> decimals, a tie to the even neighbour.\<close>

definition round_half_even :: "real \<Rightarrow> int" where
  "round_half_even x =
     (let f = \<lfloor>x\<rfloor>; d = x - real_of_int f in
      if d < 1 / 2 then f else if 1 / 2 < d then f + 1 else if even f then f else f + 1)"

definition py_round :: "nat \<Rightarrow> real \<Rightarrow> real" where
  "py_round nd x = real_of_int (round_half_even (x * 10 ^ nd)) / 10 ^ nd"

fun fround_to :: "nat \<Rightarrow> pyfloat \<Rightarrow> pyfloat" where
  "fround_to nd (Fin a) = Fin (py_round nd a)"
| "fround_to nd x = x"

definition json_opt :: "('a \<Rightarrow> json) \<Rightarrow> 'a option \<Rightarrow> json" where
  "json_opt f x = (case x of None \<Rightarrow> JNone | Some v \<Rightarrow> f v)"

definition to_dict :: "ColumnStats \<Rightarrow> (ustring \<times> json) list" where
  "to_dict self =
     [(u ''header'', JStr (cs_header self)),
      (u ''data_type'', JStr (type_value (data_type self))),
      (u ''total_count'', JInt (cs_total_count self)),
      (u ''non_empty_count'', JInt (cs_non_empty_count self)),
      (u ''empty_count'', JInt (cs_empty_count self)),
      (u ''unique_count'', JInt (cs_unique_count self)),
      (u ''completeness'', JReal (py_round 2 (completeness self))),
      (u ''duplicate_count'', JInt (duplicate_count self))]
     @ (if data_type self \<in> {INTEGER, FLOAT, CURRENCY, PERCENTAGE} then
          [(u ''numeric_stats'', JDict
             [(u ''min'', json_opt JFloat (min_val self)),
              (u ''max'', json_opt JFloat (max_val self)),
              (u ''sum'', json_opt (\<lambda>x. JFloat (fround_to 4 x)) (sum_val self)),
              (u ''mean'', json_opt (\<lambda>x. JFloat (fround_to 4 x)) (mean_val self)),
              (u ''median'', json_opt JFloat (median_val self)),
              (u ''std_dev'', json_opt (\<lambda>x. JFloat (fround_to 4 x)) (std_dev self)),
              (u ''has_outliers'', JBool (has_outliers self)),
              (u ''outlier_count'', JInt (outlier_count self))])]
        else [])
     @ (if data_type self \<in> {TEXT, EMAIL, URL} then
          [(u ''text_stats'', JDict
             [(u ''min_length'', json_opt (\<lambda>n. JInt (int n)) (min_length self)),
              (u ''max_length'', json_opt (\<lambda>n. JInt (int n)) (max_length self)),
              (u ''avg_length'', json_opt (\<lambda>x. JReal (py_round 1 x)) (avg_length self))])]
        else [])
     @ (if data_type self = BOOLEAN then
          [(u ''boolean_stats'', JDict
             [(u ''true_count'', JInt (true_count self)),
              (u ''false_count'', JInt (false_count self)),
              (u ''true_pct'',
                 (if 0 < cs_non_empty_count self
                  then JReal (py_round 1 (real_of_int (true_count self)
                                / real_of_int (cs_non_empty_count self) * 100))
                  else JInt 0))])]
        else [])
     @ (if data_type self \<in> {DATE, DATETIME} then
          [(u ''date_stats'', JDict
             [(u ''earliest'', json_opt JStr (earliest self)),
              (u ''latest'', json_opt JStr (latest self))])]
        else [])
     @ (if top_values self \<noteq> [] then
          [(u ''top_values'', JList
             (map (\<lambda>vc. JDict [(u ''value'', JStr (fst vc)), (u ''count'', JInt (snd vc))])
                (top_values self)))]
        else [])"


section \<open>Sample inputs\<close>

text \<open>
  A float printer for the examples: Python's \<open>repr\<close> on the whole numbers of magnitude
  below \<open>10^16\<close> and on the special values, which is all the examples print.
\<close>

definition repr_sample :: "pyfloat \<Rightarrow> ustring" where
  "repr_sample x =
     (case x of
        Fin r \<Rightarrow> dec_int \<lfloor>r\<rfloor> @ u ''.0''
      | PInf \<Rightarrow> u ''inf''
      | NInf \<Rightarrow> u ''-inf''
      | NaN \<Rightarrow> u ''nan'')"

text \<open>An import of a workbook without sheets.\<close>

definition empty_import :: ImportResult where
  "empty_import = new_ImportResult (u ''2024-01-01T00:00:00'') (u ''a.xlsx'')"

text \<open>A sheet of one column of mixed type whose two rows are the same.\<close>

definition sheet_dup :: SheetData where
  "sheet_dup =
     \<lparr>name = u ''S'',
      columns = [(new_ColumnInfo 0 (u ''A'') (u ''k''))
                   \<lparr>detected_type := MIXED, total_count := 2, non_empty_count := 2\<rparr>],
      rows = [[CStr (u ''a'')], [CStr (u ''a'')]],
      headers = [u ''k''],
      row_count = 2,
      col_count = 1\<rparr>"

section \<open>Properties of the column type resolver\<close>

lemma resolve_ignores_empty:
  "resolve_column_type (filter (\<lambda>kv. fst kv \<noteq> EMPTY) h) = resolve_column_type h"
  by (simp add: resolve_column_type_def)

lemma resolve_int_float: "resolve_column_type [(INTEGER, 5), (FLOAT, 3)] = Inr FLOAT"
  by (simp add: resolve_column_type_def)

lemma resolve_date_datetime: "resolve_column_type [(DATE, 2), (DATETIME, 8)] = Inr DATETIME"
  by (simp add: resolve_column_type_def doubleton_eq_iff)

lemma resolve_dominant_text: "resolve_column_type [(TEXT, 90), (INTEGER, 10)] = Inr TEXT"
  by (simp add: resolve_column_type_def doubleton_eq_iff)

lemma resolve_mixed: "resolve_column_type [(TEXT, 4), (INTEGER, 3), (EMAIL, 3)] = Inr MIXED"
proof -
  have a: "{TEXT, INTEGER, EMAIL} \<noteq> {INTEGER, FLOAT}" by blast
  have b: "{TEXT, INTEGER, EMAIL} \<noteq> {DATE, DATETIME}" by blast
  show ?thesis by (simp add: resolve_column_type_def a b)
qed

lemma resolve_nothing: "resolve_column_type [] = Inr EMPTY"
  by (simp add: resolve_column_type_def)

text \<open>
  Claim C2. The resolver returns Float for the histogram {Integer: 5, Float: 3}, DateTime
  for {Date: 2, DateTime: 8}, Text for {Text: 90, Integer: 10}, Mixed for
  {Text: 4, Integer: 3, Email: 3} and Empty for the empty histogram; and the entries for
  Empty are removed before any rule applies: a histogram and the same histogram without
  its Empty entries resolve alike.
\<close>

theorem resolve_column_type_vectors:
  "resolve_column_type [(INTEGER, 5), (FLOAT, 3)] = Inr FLOAT
   \<and> resolve_column_type [(DATE, 2), (DATETIME, 8)] = Inr DATETIME
   \<and> resolve_column_type [(TEXT, 90), (INTEGER, 10)] = Inr TEXT
   \<and> resolve_column_type [(TEXT, 4), (INTEGER, 3), (EMAIL, 3)] = Inr MIXED
   \<and> resolve_column_type [] = Inr EMPTY
   \<and> resolve_column_type h = resolve_column_type (filter (\<lambda>kv. fst kv \<noteq> EMPTY) h)"
  by (simp only: resolve_int_float resolve_date_datetime resolve_dominant_text resolve_mixed
        resolve_nothing resolve_ignores_empty simp_thms)

theorem resolve_column_type_vectors_witness:
  "resolve_column_type [(EMPTY, 7), (INTEGER, 5), (FLOAT, 3)] = Inr FLOAT"
  using resolve_column_type_vectors [of "[(EMPTY, 7), (INTEGER, 5), (FLOAT, 3)]"]
  by simp

section \<open>Properties of the analyzer\<close>

text \<open>
  Claim C4, as amended. Two runs of \<open>analyze\<close> on the same import give results that
  agree in every field but \<open>analysis_time\<close>, which holds the clock reading of each run:
  the second result is the first with its own time put in. A run that raises does so in
  both.
\<close>

theorem analyze_equal_up_to_time:
  "analyze R t1 ir = map_sum id (\<lambda>r. r\<lparr>analysis_time := t1\<rparr>) (analyze R t2 ir)"
  by (cases "map_err (analyze_sheet R) (sheets ir)")
     (simp_all add: analyze_def bind_err_def new_AnalysisResult_def Let_def)

text \<open>
  The claim as stated fails: the same import analyzed at two clock readings gives two
  results that differ.
\<close>

theorem analyze_twice_counterexample:
  "analyze repr_sample (u ''2024-01-01T00:00:00'') empty_import
     \<noteq> analyze repr_sample (u ''2024-01-01T00:00:01'') empty_import"
  by (simp add: analyze_def bind_err_def new_AnalysisResult_def new_ImportResult_def
        empty_import_def u_def)

text \<open>
  Claim C5. For every analyzed sheet with at least one column, the quality score is
  \<open>max(0, average column completeness - min(duplicateRows / max(rowCount, 1) * 100, 30))\<close>;
  the penalty is at most 30 and the score is never negative.
\<close>

theorem data_quality_score_formula:
  assumes "analyze_sheet R sheet = Inr a" and "column_stats a \<noteq> []"
  shows "data_quality_score a =
           max 0 (sum_list (map completeness (column_stats a)) / real (length (column_stats a))
                  - min (real_of_int (duplicate_rows a)
                           / real_of_int (max (sa_row_count a) 1) * 100) 30)
         \<and> min (real_of_int (duplicate_rows a)
                  / real_of_int (max (sa_row_count a) 1) * 100) 30 \<le> 30
         \<and> 0 \<le> data_quality_score a"
  using assms
  by (auto simp add: analyze_sheet_def bind_err_def Let_def max.commute
      split: sum.splits if_splits)

end
